theory Spec2Isabelle
  imports Complex_Main
begin

section \<open>JavaScript values\<close>

text \<open>
  The analyze route (\<^verbatim>\<open>app/api/analyze/route.ts\<close>) computes on JavaScript numbers.
  A number is modelled as a non-zero real or positive zero (\<open>Fin\<close>), negative zero
  (\<open>NZero\<close>), one of the two infinities, or NaN. \<open>Fin 0\<close> is \<open>+0\<close>. Finite arithmetic
  is exact: rounding to binary64, overflow and underflow are not represented, so a
  literal such as \<^verbatim>\<open>1.1\<close> is the rational 11/10.
\<close>

datatype jsnum = Fin real | NZero | PInf | NInf | NaN

text \<open>
  A field of the parsed request body, or of a Firestore document, holds a JSON primitive
  or is absent (\<open>JUndefined\<close>). Arrays and nested objects as field values are outside
  the model.
\<close>

datatype jsval = JUndefined | JNull | JBool bool | JNum jsnum | JStr string

text \<open>The sign bit of a number, its class, and its value when it is finite.\<close>

fun sign_bit :: "jsnum \<Rightarrow> bool" where
  "sign_bit (Fin a) = (a < 0)"
| "sign_bit NZero = True"
| "sign_bit PInf = False"
| "sign_bit NInf = True"
| "sign_bit NaN = False"

fun is_zero :: "jsnum \<Rightarrow> bool" where
  "is_zero (Fin a) = (a = 0)"
| "is_zero NZero = True"
| "is_zero PInf = False"
| "is_zero NInf = False"
| "is_zero NaN = False"

fun is_inf :: "jsnum \<Rightarrow> bool" where
  "is_inf (Fin a) = False"
| "is_inf NZero = False"
| "is_inf PInf = True"
| "is_inf NInf = True"
| "is_inf NaN = False"

fun real_of :: "jsnum \<Rightarrow> real" where
  "real_of (Fin a) = a"
| "real_of NZero = 0"
| "real_of PInf = 0"
| "real_of NInf = 0"
| "real_of NaN = 0"

text \<open>The zero and the infinity of a given sign bit.\<close>

definition zero_of :: "bool \<Rightarrow> jsnum" where
  "zero_of s = (if s then NZero else Fin 0)"

definition inf_of :: "bool \<Rightarrow> jsnum" where
  "inf_of s = (if s then NInf else PInf)"

text \<open>
  The operator \<^verbatim>\<open>*\<close> on numbers: NaN for a NaN operand and for zero times infinity;
  otherwise the sign is the exclusive or of the operands' signs.
\<close>

definition js_mul :: "jsnum \<Rightarrow> jsnum \<Rightarrow> jsnum" where
  "js_mul x y =
     (if x = NaN \<or> y = NaN then NaN
      else if (is_inf x \<and> is_zero y) \<or> (is_zero x \<and> is_inf y) then NaN
      else if is_inf x \<or> is_inf y then inf_of (sign_bit x \<noteq> sign_bit y)
      else if is_zero x \<or> is_zero y then zero_of (sign_bit x \<noteq> sign_bit y)
      else Fin (real_of x * real_of y))"

text \<open>
  The operator \<^verbatim>\<open>/\<close> on numbers. Dividing by zero does not throw: a non-zero
  dividend over a zero gives an infinity, whose sign is the exclusive or of the two
  signs (so \<^verbatim>\<open>5 / 0\<close> is \<^verbatim>\<open>Infinity\<close> and \<^verbatim>\<open>5 / -0\<close> is \<^verbatim>\<open>-Infinity\<close>); zero over
  zero and infinity over infinity are NaN.
\<close>

definition js_div :: "jsnum \<Rightarrow> jsnum \<Rightarrow> jsnum" where
  "js_div x y =
     (if x = NaN \<or> y = NaN then NaN
      else if (is_inf x \<and> is_inf y) \<or> (is_zero x \<and> is_zero y) then NaN
      else if is_inf x \<or> is_zero y then inf_of (sign_bit x \<noteq> sign_bit y)
      else if is_zero x \<or> is_inf y then zero_of (sign_bit x \<noteq> sign_bit y)
      else Fin (real_of x / real_of y))"

text \<open>
  The binary operator \<^verbatim>\<open>-\<close> on numbers. A difference that is zero is \<open>+0\<close>, except
  \<^verbatim>\<open>-0 - 0\<close>, which is \<open>-0\<close>.
\<close>

definition js_sub :: "jsnum \<Rightarrow> jsnum \<Rightarrow> jsnum" where
  "js_sub x y =
     (if x = NaN \<or> y = NaN then NaN
      else if is_inf x \<and> is_inf y then (if x = y then NaN else x)
      else if is_inf x then x
      else if is_inf y then inf_of (\<not> sign_bit y)
      else if real_of x = real_of y then zero_of (sign_bit x \<and> \<not> sign_bit y)
      else Fin (real_of x - real_of y))"

text \<open>
  The comparison \<^verbatim>\<open><\<close>: false as soon as one side is NaN; the two zeros are equal.
\<close>

definition js_lt :: "jsnum \<Rightarrow> jsnum \<Rightarrow> bool" where
  "js_lt x y =
     (if x = NaN \<or> y = NaN then False
      else if x = PInf \<or> y = NInf then False
      else if x = NInf \<or> y = PInf then True
      else real_of x < real_of y)"

text \<open>The comparison \<^verbatim>\<open>>=\<close>: false on NaN, otherwise the negation of \<^verbatim>\<open><\<close>.\<close>

definition js_ge :: "jsnum \<Rightarrow> jsnum \<Rightarrow> bool" where
  "js_ge x y = (x \<noteq> NaN \<and> y \<noteq> NaN \<and> \<not> js_lt x y)"

text \<open>The global \<^verbatim>\<open>isNaN\<close>, applied to a number.\<close>

definition isNaN :: "jsnum \<Rightarrow> bool" where
  "isNaN x = (x = NaN)"

text \<open>
  Truthiness, as \<^verbatim>\<open>!v\<close> and \<^verbatim>\<open>v || w\<close> test it: absent, null, false, the two
  zeros, NaN and the empty string are falsy.
\<close>

fun ToBoolean :: "jsval \<Rightarrow> bool" where
  "ToBoolean JUndefined = False"
| "ToBoolean JNull = False"
| "ToBoolean (JBool b) = b"
| "ToBoolean (JNum n) = (n \<noteq> Fin 0 \<and> n \<noteq> NZero \<and> n \<noteq> NaN)"
| "ToBoolean (JStr s) = (s \<noteq> [])"

text \<open>
  The conversion \<^verbatim>\<open>Number(v)\<close>, which the arithmetic operators also apply to their
  operands. How a string is read as a number is the runtime's business
  (\<open>StringToNumber\<close> of the language standard): it is the parameter \<open>s2n\<close>.
\<close>

fun ToNumber :: "(string \<Rightarrow> jsnum) \<Rightarrow> jsval \<Rightarrow> jsnum" where
  "ToNumber s2n JUndefined = NaN"
| "ToNumber s2n JNull = Fin 0"
| "ToNumber s2n (JBool b) = (if b then Fin 1 else Fin 0)"
| "ToNumber s2n (JNum n) = n"
| "ToNumber s2n (JStr s) = s2n s"

text \<open>
  What \<^verbatim>\<open>JSON.stringify\<close>, which \<^verbatim>\<open>NextResponse.json\<close> applies to the response object,
  writes for a number: \<^verbatim>\<open>null\<close> for NaN and the infinities, \<^verbatim>\<open>0\<close> for either zero.
  It is the value the caller reads for a numeric field.
\<close>

fun JSON_number :: "jsnum \<Rightarrow> jsval" where
  "JSON_number (Fin a) = JNum (Fin a)"
| "JSON_number NZero = JNum (Fin 0)"
| "JSON_number PInf = JNull"
| "JSON_number NInf = JNull"
| "JSON_number NaN = JNull"

section \<open>Unit conversion\<close>

text \<open>
  \<^verbatim>\<open>toAnnual(salary, mode)\<close> compares \<open>mode\<close> with the string \<^verbatim>\<open>"annual"\<close> by strict
  equality; the declared type of \<open>mode\<close> is erased at run time, so it is any value.
\<close>

definition toAnnual :: "jsnum \<Rightarrow> jsval \<Rightarrow> jsnum" where
  "toAnnual salary mode =
     (if mode = JStr ''annual'' then salary else js_mul salary (Fin 2080))"

definition toHourly :: "jsnum \<Rightarrow> jsnum" where
  "toHourly salaryAnnual = js_div salaryAnnual (Fin 2080)"

section \<open>The analyze request\<close>

text \<open>The parsed request body; a field that is absent reads as \<open>JUndefined\<close>.\<close>

record body =
  state :: jsval
  county :: jsval
  soc_code :: jsval
  salary_value :: jsval
  mode :: jsval

text \<open>
  What \<^verbatim>\<open>req.json()\<close> resolves to: \<^verbatim>\<open>null\<close>, or a value whose five fields can be read
  (an object; a number, a string, a boolean or an array reads as \<open>Fields\<close> with every
  field absent).
\<close>

datatype json_body = NullBody | Fields body

text \<open>
  The reads \<^verbatim>\<open>body.state\<close> ... \<^verbatim>\<open>body.mode\<close> at the head of the handler. On
  \<^verbatim>\<open>null\<close> the first read throws a \<^verbatim>\<open>TypeError\<close>; \<open>e\<close> is the message the runtime
  gives it.
\<close>

definition read_body :: "string option \<Rightarrow> json_body \<Rightarrow> string option + body" where
  "read_body e parsed = (case parsed of NullBody \<Rightarrow> Inl e | Fields b \<Rightarrow> Inr b)"

text \<open>The fields of the Firestore document that the handler reads.\<close>

record wage_doc =
  l1_wage :: jsval
  l2_wage :: jsval
  l3_wage :: jsval
  l4_wage :: jsval
  job_title :: jsval

record lvl =
  key :: string
  wageAnnual :: jsval

datatype status = below | meets | exceeds

record table_row =
  level :: string
  annual_wage :: jsval
  hourly_wage :: jsnum
  ratio :: jsnum
  status :: status
  toReachAnnual :: jsnum

record input =
  state :: jsval
  county :: jsval
  soc_code :: jsval
  job_title :: jsval
  salary_value :: jsnum
  mode :: jsval
  salary_annual :: jsnum
  salary_hourly :: jsnum

record wages =
  l1 :: jsval
  l2 :: jsval
  l3 :: jsval
  l4 :: jsval

record chart =
  levels :: "string list"
  wagesAnnual :: "jsval list"
  userSalaryAnnual :: jsnum

record analysis =
  input :: input
  wages :: wages
  chart :: chart
  table :: "table_row list"

text \<open>
  A response is either \<^verbatim>\<open>{ ok: false, error }\<close> with its HTTP status, or
  \<^verbatim>\<open>{ ok: true, input, wages, chart, table }\<close>.
\<close>

datatype response = Failure nat string | Success analysis

fun ok :: "response \<Rightarrow> bool" where
  "ok (Failure code msg) = False"
| "ok (Success res) = True"

text \<open>The array \<^verbatim>\<open>levels\<close> built from the document, in the order it is written.\<close>

definition levels_of :: "wage_doc \<Rightarrow> lvl list" where
  "levels_of data =
     [\<lparr>key = ''L1'', wageAnnual = l1_wage data\<rparr>,
      \<lparr>key = ''L2'', wageAnnual = l2_wage data\<rparr>,
      \<lparr>key = ''L3'', wageAnnual = l3_wage data\<rparr>,
      \<lparr>key = ''L4'', wageAnnual = l4_wage data\<rparr>]"

text \<open>
  The function mapped over \<^verbatim>\<open>levels\<close> to build \<^verbatim>\<open>table\<close>. The wage is converted by
  \<open>ToNumber\<close> where the source divides by it or subtracts from it.
\<close>

definition table_entry :: "(string \<Rightarrow> jsnum) \<Rightarrow> jsnum \<Rightarrow> lvl \<Rightarrow> table_row" where
  "table_entry s2n userAnnual l =
     (let ratio = js_div userAnnual (ToNumber s2n (wageAnnual l));
          status = (if js_lt ratio (Fin 1) then below
                    else if js_ge ratio (Fin 1) \<and> js_lt ratio (Fin 1.1) then meets
                    else exceeds);
          diffAnnual = (if status = below
                        then js_sub (ToNumber s2n (wageAnnual l)) userAnnual
                        else Fin 0)
      in \<lparr>level = key l,
          annual_wage = wageAnnual l,
          hourly_wage = toHourly (ToNumber s2n (wageAnnual l)),
          ratio = ratio,
          status = status,
          toReachAnnual = diffAnnual\<rparr>)"

text \<open>\<^verbatim>\<open>error.message ?? "Unknown error"\<close> for a caught exception.\<close>

definition error_message :: "string option \<Rightarrow> string" where
  "error_message e = (case e of None \<Rightarrow> ''Unknown error'' | Some m \<Rightarrow> m)"

text \<open>\<^verbatim>\<open>data.job_title ?? null\<close>.\<close>

definition nullish_null :: "jsval \<Rightarrow> jsval" where
  "nullish_null v = (if v = JUndefined \<or> v = JNull then JNull else v)"

text \<open>
  The handler. \<open>req_json\<close> is the outcome of \<^verbatim>\<open>await req.json()\<close> and of the reads of
  the five fields (\<open>read_body\<close>), and \<open>getDocs\<close> the outcome of the Firestore query for
  the three keys (the documents of the snapshot, at most one by \<^verbatim>\<open>limit(1)\<close>); \<open>Inl\<close>
  is an exception with its optional message, which the \<^verbatim>\<open>catch\<close> turns into a 500
  response. The result is the object handed to \<^verbatim>\<open>NextResponse.json\<close>; \<open>JSON_number\<close>
  gives what the caller reads for its numbers.
\<close>

definition POST ::
  "(string \<Rightarrow> jsnum) \<Rightarrow> (jsval \<Rightarrow> jsval \<Rightarrow> jsval \<Rightarrow> string option + wage_doc list)
     \<Rightarrow> string option + body \<Rightarrow> response" where
  "POST s2n getDocs req_json =
     (case req_json of
        Inl e \<Rightarrow> Failure 500 (error_message e)
      | Inr b \<Rightarrow>
          (let state = body.state b;
               county = body.county b;
               soc_code = body.soc_code b;
               salary_value = ToNumber s2n (body.salary_value b);
               mode = (if ToBoolean (body.mode b) then body.mode b else JStr ''annual'')
           in if \<not> ToBoolean state \<or> \<not> ToBoolean county \<or> \<not> ToBoolean soc_code
                 \<or> \<not> ToBoolean (JNum salary_value) \<or> isNaN salary_value
              then Failure 400 ''Missing or invalid state, county, soc_code, or salary_value''
              else
                (let userSalaryAnnual = toAnnual salary_value mode
                 in case getDocs state county soc_code of
                      Inl e \<Rightarrow> Failure 500 (error_message e)
                    | Inr [] \<Rightarrow> Failure 404 ''No matching wage record found for given filters''
                    | Inr (data # rest) \<Rightarrow>
                        (let levels = levels_of data;
                             table = map (table_entry s2n userSalaryAnnual) levels
                         in Success
                              \<lparr>input =
                                 \<lparr>state = state,
                                  county = county,
                                  soc_code = soc_code,
                                  job_title = nullish_null (wage_doc.job_title data),
                                  salary_value = salary_value,
                                  mode = mode,
                                  salary_annual = userSalaryAnnual,
                                  salary_hourly = toHourly userSalaryAnnual\<rparr>,
                               wages =
                                 \<lparr>l1 = l1_wage data,
                                  l2 = l2_wage data,
                                  l3 = l3_wage data,
                                  l4 = l4_wage data\<rparr>,
                               chart =
                                 \<lparr>levels = [''L1'', ''L2'', ''L3'', ''L4''],
                                  wagesAnnual = map wageAnnual levels,
                                  userSalaryAnnual = userSalaryAnnual\<rparr>,
                               table = table\<rparr>))))"

section \<open>Fixtures\<close>

text \<open>
  The rows of a response; a failure carries none.
\<close>

fun table_of :: "response \<Rightarrow> table_row list" where
  "table_of (Failure code msg) = []"
| "table_of (Success res) = table res"

text \<open>The \<^verbatim>\<open>input\<close> object of a response; a failure carries none.\<close>

fun input_of :: "response \<Rightarrow> input option" where
  "input_of (Failure code msg) = None"
| "input_of (Success res) = Some (input res)"

text \<open>
  A collection whose query returns the one document \<open>d\<close>, and a reading of strings that
  takes no string for a number. The fixtures below hold a number wherever a number is
  read, so the reading of strings plays no part in them.
\<close>

definition only_doc ::
  "wage_doc \<Rightarrow> jsval \<Rightarrow> jsval \<Rightarrow> jsval \<Rightarrow> string option + wage_doc list" where
  "only_doc d st co soc = Inr [d]"

definition reads_no_string :: "string \<Rightarrow> jsnum" where
  "reads_no_string s = NaN"

text \<open>The request and the wage record of the project's README (example scenario 1).\<close>

definition scenario1_doc :: wage_doc where
  "scenario1_doc =
     \<lparr>l1_wage = JNum (Fin 60000), l2_wage = JNum (Fin 80000),
      l3_wage = JNum (Fin 100000), l4_wage = JNum (Fin 120000),
      job_title = JUndefined\<rparr>"

definition scenario1_body :: body where
  "scenario1_body =
     \<lparr>body.state = JStr ''Texas (TX)'', body.county = JStr ''Randall County'',
      body.soc_code = JStr ''13-2071'', body.salary_value = JNum (Fin 90000),
      body.mode = JStr ''annual''\<rparr>"

text \<open>A salary of 110000 against wages that put the ratios 1.1 and 1 on two rows.\<close>

definition boundary_doc :: wage_doc where
  "boundary_doc =
     \<lparr>l1_wage = JNum (Fin 100000), l2_wage = JNum (Fin 110000),
      l3_wage = JNum (Fin 105000), l4_wage = JNum (Fin 120000),
      job_title = JUndefined\<rparr>"

definition boundary_body :: body where
  "boundary_body = scenario1_body\<lparr>body.salary_value := JNum (Fin 110000)\<rparr>"

text \<open>Example scenario 4: the first level wage is zero, the salary 50000.\<close>

definition scenario4_doc :: wage_doc where
  "scenario4_doc = scenario1_doc\<lparr>l1_wage := JNum (Fin 0)\<rparr>"

definition scenario4_body :: body where
  "scenario4_body = scenario1_body\<lparr>body.salary_value := JNum (Fin 50000)\<rparr>"

text \<open>
  A record whose first level wage is absent, one whose first level wage is negative
  zero, and one whose wages descend.
\<close>

definition missing_l1_doc :: wage_doc where
  "missing_l1_doc = scenario1_doc\<lparr>l1_wage := JUndefined\<rparr>"

definition negzero_doc :: wage_doc where
  "negzero_doc = scenario1_doc\<lparr>l1_wage := JNum NZero\<rparr>"

definition descending_doc :: wage_doc where
  "descending_doc =
     \<lparr>l1_wage = JNum (Fin 120000), l2_wage = JNum (Fin 100000),
      l3_wage = JNum (Fin 80000), l4_wage = JNum (Fin 60000),
      job_title = JUndefined\<rparr>"

lemmas fixture_defs =
  only_doc_def reads_no_string_def scenario1_doc_def scenario1_body_def
  boundary_doc_def boundary_body_def scenario4_doc_def scenario4_body_def
  missing_l1_doc_def negzero_doc_def descending_doc_def

lemmas js_defs =
  js_mul_def js_div_def js_sub_def js_lt_def js_ge_def zero_of_def inf_of_def

lemmas eval_defs =
  POST_def Let_def isNaN_def levels_of_def table_entry_def toAnnual_def toHourly_def
  nullish_null_def read_body_def js_defs

section \<open>The shape of a successful response\<close>

lemma POST_Success_elim:
  assumes "POST s2n getDocs req_json = Success res"
  obtains b data rest where
    "req_json = Inr b"
    "ToBoolean (body.state b)" "ToBoolean (body.county b)" "ToBoolean (body.soc_code b)"
    "ToNumber s2n (body.salary_value b) \<noteq> NaN"
    "ToNumber s2n (body.salary_value b) \<noteq> Fin 0"
    "ToNumber s2n (body.salary_value b) \<noteq> NZero"
    "getDocs (body.state b) (body.county b) (body.soc_code b) = Inr (data # rest)"
    "input.salary_value (input res) = ToNumber s2n (body.salary_value b)"
    "input.mode (input res) = (if ToBoolean (body.mode b) then body.mode b else JStr ''annual'')"
    "salary_annual (input res) = toAnnual (input.salary_value (input res)) (input.mode (input res))"
    "salary_hourly (input res) = toHourly (salary_annual (input res))"
    "userSalaryAnnual (chart res) = salary_annual (input res)"
    "wages res = \<lparr>l1 = l1_wage data, l2 = l2_wage data, l3 = l3_wage data, l4 = l4_wage data\<rparr>"
    "table res = map (table_entry s2n (salary_annual (input res))) (levels_of data)"
  using assms
  unfolding POST_def Let_def isNaN_def
  by (auto split: sum.splits list.splits if_splits)

lemma POST_Inr_elim:
  assumes "POST s2n getDocs (Inr b) = Success res"
  obtains data rest where
    "ToBoolean (body.state b)" "ToBoolean (body.county b)" "ToBoolean (body.soc_code b)"
    "ToNumber s2n (body.salary_value b) \<noteq> NaN"
    "ToNumber s2n (body.salary_value b) \<noteq> Fin 0"
    "ToNumber s2n (body.salary_value b) \<noteq> NZero"
    "getDocs (body.state b) (body.county b) (body.soc_code b) = Inr (data # rest)"
    "input.salary_value (input res) = ToNumber s2n (body.salary_value b)"
    "input.mode (input res) = (if ToBoolean (body.mode b) then body.mode b else JStr ''annual'')"
    "salary_annual (input res) = toAnnual (input.salary_value (input res)) (input.mode (input res))"
    "salary_hourly (input res) = toHourly (salary_annual (input res))"
    "userSalaryAnnual (chart res) = salary_annual (input res)"
    "wages res = \<lparr>l1 = l1_wage data, l2 = l2_wage data, l3 = l3_wage data, l4 = l4_wage data\<rparr>"
    "table res = map (table_entry s2n (salary_annual (input res))) (levels_of data)"
  using assms
  unfolding POST_def Let_def isNaN_def
  by (auto split: sum.splits list.splits if_splits)

lemma POST_Success_intro:
  assumes "ToBoolean (body.state b)" "ToBoolean (body.county b)" "ToBoolean (body.soc_code b)"
    and "ToNumber s2n (body.salary_value b) \<noteq> NaN"
    and "ToNumber s2n (body.salary_value b) \<noteq> Fin 0"
    and "ToNumber s2n (body.salary_value b) \<noteq> NZero"
    and "getDocs (body.state b) (body.county b) (body.soc_code b) = Inr (data # rest)"
  shows "ok (POST s2n getDocs (Inr b))"
  using assms unfolding POST_def Let_def isNaN_def by simp

lemma ok_Success: "ok r \<Longrightarrow> \<exists>res. r = Success res"
  by (cases r) simp_all

lemma table_entry_fields:
  "level (table_entry s2n u l) = key l"
  "annual_wage (table_entry s2n u l) = wageAnnual l"
  "hourly_wage (table_entry s2n u l) = toHourly (ToNumber s2n (wageAnnual l))"
  "ratio (table_entry s2n u l) = js_div u (ToNumber s2n (wageAnnual l))"
  "status (table_entry s2n u l) =
     (if js_lt (js_div u (ToNumber s2n (wageAnnual l))) (Fin 1) then below
      else if js_ge (js_div u (ToNumber s2n (wageAnnual l))) (Fin 1)
              \<and> js_lt (js_div u (ToNumber s2n (wageAnnual l))) (Fin 1.1) then meets
      else exceeds)"
  "toReachAnnual (table_entry s2n u l) =
     (if status (table_entry s2n u l) = below
      then js_sub (ToNumber s2n (wageAnnual l)) u else Fin 0)"
  by (simp_all add: table_entry_def Let_def)

lemma POST_row:
  assumes "POST s2n getDocs req_json = Success res" and "row \<in> set (table res)"
  obtains l where "row = table_entry s2n (userSalaryAnnual (chart res)) l"
  using assms by (elim POST_Success_elim) auto

lemma js_ge_not_lt: "js_ge r (Fin b) \<Longrightarrow> a \<le> b \<Longrightarrow> \<not> js_lt r (Fin a)"
  by (cases r) (auto simp: js_defs)

lemma scenario1_table:
  "table_of (POST s2n (only_doc scenario1_doc) (Inr scenario1_body)) =
     [\<lparr>level = ''L1'', annual_wage = JNum (Fin 60000), hourly_wage = Fin (375 / 13),
       ratio = Fin 1.5, status = exceeds, toReachAnnual = Fin 0\<rparr>,
      \<lparr>level = ''L2'', annual_wage = JNum (Fin 80000), hourly_wage = Fin (500 / 13),
       ratio = Fin 1.125, status = exceeds, toReachAnnual = Fin 0\<rparr>,
      \<lparr>level = ''L3'', annual_wage = JNum (Fin 100000), hourly_wage = Fin (625 / 13),
       ratio = Fin 0.9, status = below, toReachAnnual = Fin 10000\<rparr>,
      \<lparr>level = ''L4'', annual_wage = JNum (Fin 120000), hourly_wage = Fin (750 / 13),
       ratio = Fin 0.75, status = below, toReachAnnual = Fin 30000\<rparr>]"
  by (simp add: eval_defs fixture_defs)

lemma boundary_table:
  "table_of (POST s2n (only_doc boundary_doc) (Inr boundary_body)) =
     [\<lparr>level = ''L1'', annual_wage = JNum (Fin 100000), hourly_wage = Fin (625 / 13),
       ratio = Fin 1.1, status = exceeds, toReachAnnual = Fin 0\<rparr>,
      \<lparr>level = ''L2'', annual_wage = JNum (Fin 110000), hourly_wage = Fin (1375 / 26),
       ratio = Fin 1, status = meets, toReachAnnual = Fin 0\<rparr>,
      \<lparr>level = ''L3'', annual_wage = JNum (Fin 105000), hourly_wage = Fin (2625 / 52),
       ratio = Fin (22 / 21), status = meets, toReachAnnual = Fin 0\<rparr>,
      \<lparr>level = ''L4'', annual_wage = JNum (Fin 120000), hourly_wage = Fin (750 / 13),
       ratio = Fin (11 / 12), status = below, toReachAnnual = Fin 10000\<rparr>]"
  by (simp add: eval_defs fixture_defs)

lemma scenario4_table:
  "table_of (POST s2n (only_doc scenario4_doc) (Inr scenario4_body)) =
     [\<lparr>level = ''L1'', annual_wage = JNum (Fin 0), hourly_wage = Fin 0,
       ratio = PInf, status = exceeds, toReachAnnual = Fin 0\<rparr>,
      \<lparr>level = ''L2'', annual_wage = JNum (Fin 80000), hourly_wage = Fin (500 / 13),
       ratio = Fin (5 / 8), status = below, toReachAnnual = Fin 30000\<rparr>,
      \<lparr>level = ''L3'', annual_wage = JNum (Fin 100000), hourly_wage = Fin (625 / 13),
       ratio = Fin (1 / 2), status = below, toReachAnnual = Fin 50000\<rparr>,
      \<lparr>level = ''L4'', annual_wage = JNum (Fin 120000), hourly_wage = Fin (750 / 13),
       ratio = Fin (5 / 12), status = below, toReachAnnual = Fin 70000\<rparr>]"
  by (simp add: eval_defs fixture_defs)


lemma negzero_table:
  "table_of (POST s2n (only_doc negzero_doc) (Inr scenario1_body)) =
     [\<lparr>level = ''L1'', annual_wage = JNum NZero, hourly_wage = NZero,
       ratio = NInf, status = below, toReachAnnual = Fin (- 90000)\<rparr>,
      \<lparr>level = ''L2'', annual_wage = JNum (Fin 80000), hourly_wage = Fin (500 / 13),
       ratio = Fin 1.125, status = exceeds, toReachAnnual = Fin 0\<rparr>,
      \<lparr>level = ''L3'', annual_wage = JNum (Fin 100000), hourly_wage = Fin (625 / 13),
       ratio = Fin 0.9, status = below, toReachAnnual = Fin 10000\<rparr>,
      \<lparr>level = ''L4'', annual_wage = JNum (Fin 120000), hourly_wage = Fin (750 / 13),
       ratio = Fin 0.75, status = below, toReachAnnual = Fin 30000\<rparr>]"
  by (simp add: eval_defs fixture_defs)

lemma amount_nonneg:
  assumes "js_ge w (Fin 0)" and "w \<noteq> NZero" and "js_lt (Fin 0) u"
  shows "js_ge (if js_lt (js_div u w) (Fin 1) then js_sub w u else Fin 0) (Fin 0)"
  using assms by (cases u; cases w) (auto simp: js_defs field_simps)

lemma toAnnual_positive: "js_lt (Fin 0) v \<Longrightarrow> js_lt (Fin 0) (toAnnual v m)"
  by (cases v) (auto simp: toAnnual_def js_defs)

section \<open>Unit conversion: what the two functions compute\<close>

text \<open>
  Claim C5. \<open>toAnnual\<close> returns an annual value unchanged and multiplies an hourly value
  by 2080; \<open>toHourly\<close> divides by 2080. Neither rounds: on a finite value the result
  is the exact product or quotient.
\<close>

theorem conversion_formulas:
  "toAnnual v (JStr ''annual'') = v
   \<and> toAnnual v (JStr ''hourly'') = js_mul v (Fin 2080)
   \<and> toAnnual (Fin x) (JStr ''hourly'') = Fin (x * 2080)
   \<and> toHourly v = js_div v (Fin 2080)
   \<and> toHourly (Fin a) = Fin (a / 2080)"
  by (auto simp: toAnnual_def toHourly_def js_defs)

text \<open>
  Claim C4, as stated, asks that \<open>toAnnual (toHourly x) annual\<close> be \<open>x\<close>. In annual
  mode \<open>toAnnual\<close> hands its argument back, so the result is \<open>x / 2080\<close>: for
  \<open>x = 2080\<close> it is 1.
\<close>

theorem annual_round_trip_counterexample:
  "toAnnual (toHourly (Fin 2080)) (JStr ''annual'') \<noteq> Fin 2080"
  by (simp add: toAnnual_def toHourly_def js_defs)

text \<open>
  Claim C4, amended. Over the reals the two conversions are inverse to each other when
  \<open>toAnnual\<close> runs in hourly mode, in both orders and for every \<open>x\<close> (so for every
  \<open>x \<ge> 0\<close>); in annual mode \<open>toAnnual (toHourly x)\<close> is \<open>x / 2080\<close>.
\<close>

theorem conversion_round_trip:
  "toHourly (toAnnual (Fin x) (JStr ''hourly'')) = Fin x
   \<and> toAnnual (toHourly (Fin x)) (JStr ''hourly'') = Fin x
   \<and> toAnnual (toHourly (Fin x)) (JStr ''annual'') = Fin (x / 2080)"
  by (auto simp: toAnnual_def toHourly_def js_defs)

section \<open>Validation of the request\<close>




text \<open>
  The guard of the handler is \<^verbatim>\<open>!salary_value || isNaN(salary_value)\<close>, which a
  negative number passes; the page that calls the route tests \<^verbatim>\<open>numericSalary <= 0\<close>
  as well. A salary of -5 sent to the route is therefore answered with a table.
\<close>

lemma negative_salary_accepted:
  "ok (POST reads_no_string (only_doc scenario1_doc)
         (Inr (scenario1_body\<lparr>body.salary_value := JNum (Fin (- 5))\<rparr>)))"
  by (simp add: eval_defs fixture_defs)

section \<open>Classification of a row\<close>

text \<open>
  Claim C1. In every successful response, every row's ratio is the user's annual salary
  divided by the row's annual wage, and the status follows the thresholds 1 and 1.1:
  \<open>below\<close> when the ratio is less than 1, \<open>meets\<close> when it is at least 1 and less
  than 1.1, \<open>exceeds\<close> when it is at least 1.1. A ratio of exactly 1 meets, a ratio of
  exactly 1.1 exceeds.
\<close>

theorem status_policy_A:
  assumes "POST s2n getDocs req_json = Success res" and "row \<in> set (table res)"
  shows "ratio row = js_div (userSalaryAnnual (chart res)) (ToNumber s2n (annual_wage row))
       \<and> (js_lt (ratio row) (Fin 1) \<longrightarrow> status row = below)
       \<and> (js_ge (ratio row) (Fin 1) \<and> js_lt (ratio row) (Fin 1.1) \<longrightarrow> status row = meets)
       \<and> (js_ge (ratio row) (Fin 1.1) \<longrightarrow> status row = exceeds)
       \<and> (ratio row = Fin 1 \<longrightarrow> status row = meets)
       \<and> (ratio row = Fin 1.1 \<longrightarrow> status row = exceeds)"
proof -
  from assms obtain l where row: "row = table_entry s2n (userSalaryAnnual (chart res)) l"
    by (rule POST_row)
  have r: "ratio row = js_div (userSalaryAnnual (chart res)) (ToNumber s2n (annual_wage row))"
    by (simp add: row table_entry_fields)
  have st: "status row =
      (if js_lt (ratio row) (Fin 1) then below
       else if js_ge (ratio row) (Fin 1) \<and> js_lt (ratio row) (Fin 1.1) then meets
       else exceeds)"
    by (simp add: row table_entry_fields)
  have a: "js_lt (ratio row) (Fin 1) \<longrightarrow> status row = below"
    by (simp add: st)
  have b: "js_ge (ratio row) (Fin 1) \<and> js_lt (ratio row) (Fin 1.1) \<longrightarrow> status row = meets"
    using js_ge_not_lt [of "ratio row" 1 1] by (simp add: st)
  have c: "js_ge (ratio row) (Fin 1.1) \<longrightarrow> status row = exceeds"
    using js_ge_not_lt [of "ratio row" "1.1" 1] js_ge_not_lt [of "ratio row" "1.1" "1.1"]
    by (simp add: st)
  have d: "ratio row = Fin 1 \<longrightarrow> status row = meets"
    using b by (simp add: js_defs)
  have e: "ratio row = Fin 1.1 \<longrightarrow> status row = exceeds"
    using c by (simp add: js_defs)
  from r a b c d e show ?thesis by blast
qed

text \<open>
  The theorem at a salary of 110000 against the wages 100000, 110000, 105000 and
  120000: the ratios are 1.1, 1, 22/21 and 11/12.
\<close>

theorem status_policy_A_witness:
  "ok (POST reads_no_string (only_doc boundary_doc) (Inr boundary_body))
   \<and> map ratio (table_of (POST reads_no_string (only_doc boundary_doc) (Inr boundary_body)))
       = [Fin 1.1, Fin 1, Fin (22 / 21), Fin (11 / 12)]
   \<and> map status (table_of (POST reads_no_string (only_doc boundary_doc) (Inr boundary_body)))
       = [exceeds, meets, meets, below]"
proof -
  let ?r = "POST reads_no_string (only_doc boundary_doc) (Inr boundary_body)"
  note rows = boundary_table [of reads_no_string]
  then obtain res where res: "?r = Success res"
    by (cases ?r) simp_all
  from rows res obtain r1 r2 r3 r4 where tb: "table res = [r1, r2, r3, r4]"
    and ratios: "ratio r1 = Fin 1.1" "ratio r2 = Fin 1" "ratio r3 = Fin (22 / 21)"
      "ratio r4 = Fin (11 / 12)"
    by simp
  have "status r1 = exceeds"
    using status_policy_A [OF res, of r1] tb ratios by simp
  moreover have "status r2 = meets"
    using status_policy_A [OF res, of r2] tb ratios by simp
  moreover have "status r3 = meets"
    using status_policy_A [OF res, of r3] tb ratios by (simp add: js_defs)
  moreover have "status r4 = below"
    using status_policy_A [OF res, of r4] tb ratios by (simp add: js_defs)
  ultimately show ?thesis
    using res tb ratios by simp
qed

section \<open>The amount to reach a level\<close>

text \<open>
  Claim C6, as stated, asks that the amount to reach be non-negative whenever the four
  wages are non-negative and the salary is positive. Negative zero is not less than
  zero, so it is a non-negative wage; the division by it gives \<open>-Infinity\<close>, the row
  is \<open>below\<close>, and its amount is \<^verbatim>\<open>-0 - 90000\<close>, which is negative.
\<close>

theorem negative_zero_wage_counterexample:
  "map annual_wage (table_of (POST reads_no_string (only_doc negzero_doc) (Inr scenario1_body)))
     = [JNum NZero, JNum (Fin 80000), JNum (Fin 100000), JNum (Fin 120000)]
   \<and> js_ge NZero (Fin 0) \<and> js_ge (Fin 80000) (Fin 0)
   \<and> js_ge (Fin 100000) (Fin 0) \<and> js_ge (Fin 120000) (Fin 0)
   \<and> js_lt (Fin 0) (Fin 90000)
   \<and> map status (table_of (POST reads_no_string (only_doc negzero_doc) (Inr scenario1_body)))
     = [below, exceeds, below, below]
   \<and> map toReachAnnual
       (table_of (POST reads_no_string (only_doc negzero_doc) (Inr scenario1_body)))
     = [Fin (- 90000), Fin 0, Fin 10000, Fin 30000]
   \<and> \<not> js_ge (Fin (- 90000)) (Fin 0)"
  by (simp add: negzero_table js_defs)

text \<open>
  Claim C6, amended. In every successful response a row's amount to reach is the row's
  annual wage minus the user's annual salary when the row's status is \<open>below\<close> (for a
  finite wage \<open>w\<close> and salary \<open>u\<close>, the number \<open>w - u\<close>), and 0 otherwise; so it is 0 on
  every row that meets or exceeds. When the row's wage is non-negative and is not
  negative zero, and the salary is positive, the amount is not negative. (The last part
  asks this of the row's own wage only, which the same condition on all four wages
  implies.)
\<close>

theorem amount_to_reach:
  assumes "POST s2n getDocs req_json = Success res" and "row \<in> set (table res)"
  shows "toReachAnnual row =
           (if status row = below
            then js_sub (ToNumber s2n (annual_wage row)) (userSalaryAnnual (chart res))
            else Fin 0)
       \<and> (status row = below \<and> ToNumber s2n (annual_wage row) = Fin w
            \<and> userSalaryAnnual (chart res) = Fin u
          \<longrightarrow> toReachAnnual row = Fin (w - u))
       \<and> (status row = meets \<or> status row = exceeds \<longrightarrow> toReachAnnual row = Fin 0)
       \<and> (js_ge (ToNumber s2n (annual_wage row)) (Fin 0)
            \<and> ToNumber s2n (annual_wage row) \<noteq> NZero
            \<and> js_lt (Fin 0) (input.salary_value (input res))
          \<longrightarrow> js_ge (toReachAnnual row) (Fin 0))"
proof -
  from assms obtain l where row: "row = table_entry s2n (userSalaryAnnual (chart res)) l"
    by (rule POST_row)
  have amt: "toReachAnnual row =
           (if status row = below
            then js_sub (ToNumber s2n (annual_wage row)) (userSalaryAnnual (chart res))
            else Fin 0)"
    by (simp add: row table_entry_fields)
  have num: "toReachAnnual row = Fin (w - u)"
    if "status row = below" and "ToNumber s2n (annual_wage row) = Fin w"
      and "userSalaryAnnual (chart res) = Fin u"
    using that by (auto simp: amt js_defs)
  have zero: "status row = meets \<or> status row = exceeds \<longrightarrow> toReachAnnual row = Fin 0"
    by (auto simp: amt)
  have pos: "js_lt (Fin 0) (userSalaryAnnual (chart res))"
    if "js_lt (Fin 0) (input.salary_value (input res))"
    using assms(1) that by (elim POST_Success_elim) (simp add: toAnnual_positive)
  have below_iff: "status row = below \<longleftrightarrow>
      js_lt (js_div (userSalaryAnnual (chart res)) (ToNumber s2n (annual_wage row))) (Fin 1)"
    by (simp add: row table_entry_fields)
  have nonneg: "js_ge (toReachAnnual row) (Fin 0)"
    if "js_ge (ToNumber s2n (annual_wage row)) (Fin 0)"
      and "ToNumber s2n (annual_wage row) \<noteq> NZero"
      and "js_lt (Fin 0) (input.salary_value (input res))"
    using amount_nonneg [OF that(1,2) pos [OF that(3)]] by (simp add: amt below_iff)
  from amt num zero nonneg show ?thesis by blast
qed

text \<open>The theorem on the four rows of the README example.\<close>

theorem amount_to_reach_witness:
  "map status (table_of (POST reads_no_string (only_doc scenario1_doc) (Inr scenario1_body)))
     = [exceeds, exceeds, below, below]
   \<and> map toReachAnnual
       (table_of (POST reads_no_string (only_doc scenario1_doc) (Inr scenario1_body)))
     = [Fin 0, Fin 0, Fin 10000, Fin 30000]
   \<and> js_ge (Fin 0) (Fin 0) \<and> js_ge (Fin 10000) (Fin 0)"
proof -
  let ?r = "POST reads_no_string (only_doc scenario1_doc) (Inr scenario1_body)"
  note rows = scenario1_table [of reads_no_string]
  then obtain res where res: "?r = Success res"
    by (cases ?r) simp_all
  from rows res obtain r1 r2 r3 r4 where tb: "table res = [r1, r2, r3, r4]"
    and w: "annual_wage r1 = JNum (Fin 60000)" "annual_wage r2 = JNum (Fin 80000)"
      "annual_wage r3 = JNum (Fin 100000)" "annual_wage r4 = JNum (Fin 120000)"
    and st: "status r1 = exceeds" "status r2 = exceeds" "status r3 = below" "status r4 = below"
    by simp
  have u: "userSalaryAnnual (chart res) = Fin 90000"
    and sv: "input.salary_value (input res) = Fin 90000"
    using res by (elim POST_Success_elim; auto simp: fixture_defs toAnnual_def)+
  have "toReachAnnual r1 = Fin 0 \<and> js_ge (toReachAnnual r1) (Fin 0)"
    using amount_to_reach [OF res, of r1] tb w st u sv by (simp add: js_defs)
  moreover have "toReachAnnual r2 = Fin 0"
    using amount_to_reach [OF res, of r2] tb w st u sv by simp
  moreover have "toReachAnnual r3 = Fin 10000 \<and> js_ge (toReachAnnual r3) (Fin 0)"
    using amount_to_reach [OF res, of r3 100000 90000] tb w st u sv by (simp add: js_defs)
  moreover have "toReachAnnual r4 = Fin 30000"
    using amount_to_reach [OF res, of r4 120000 90000] tb w st u sv by (simp add: js_defs)
  ultimately show ?thesis
    using res tb st by (simp add: js_defs)
qed

section \<open>A level wage of zero\<close>

text \<open>
  Claim C3, as stated, asks for a guard error on the row of a zero wage. The rows have no
  such marker and the division is not guarded: in example scenario 4 the first row
  carries the ratio \<open>+Infinity\<close>, which the caller reads as \<^verbatim>\<open>null\<close>, the status
  \<open>exceeds\<close> and the amount 0.
\<close>

theorem zero_wage_counterexample:
  "ok (POST reads_no_string (only_doc scenario4_doc) (Inr scenario4_body))
   \<and> map ratio (table_of (POST reads_no_string (only_doc scenario4_doc) (Inr scenario4_body)))
       = [PInf, Fin (5 / 8), Fin (1 / 2), Fin (5 / 12)]
   \<and> map JSON_number
        (map ratio (table_of (POST reads_no_string (only_doc scenario4_doc) (Inr scenario4_body))))
       = [JNull, JNum (Fin (5 / 8)), JNum (Fin (1 / 2)), JNum (Fin (5 / 12))]
   \<and> map status (table_of (POST reads_no_string (only_doc scenario4_doc) (Inr scenario4_body)))
       = [exceeds, below, below, below]
   \<and> map toReachAnnual
         (table_of (POST reads_no_string (only_doc scenario4_doc) (Inr scenario4_body)))
       = [Fin 0, Fin 30000, Fin 50000, Fin 70000]"
proof -
  have "ok (POST reads_no_string (only_doc scenario4_doc) (Inr scenario4_body))"
    by (simp add: eval_defs fixture_defs)
  then show ?thesis
    by (simp add: scenario4_table)
qed

text \<open>
  Claim C3, amended. With a positive user salary \<open>u\<close>, a successful response always has
  four rows and no row carries a guard error. A row whose wage is \<open>+0\<close> carries the
  ratio \<open>+Infinity\<close>, the status \<open>exceeds\<close> and the amount 0; a row whose wage is
  \<open>-0\<close> carries the ratio \<open>-Infinity\<close>, the status \<open>below\<close> and the amount \<open>-u\<close>;
  the caller reads either ratio as \<^verbatim>\<open>null\<close>. A row whose wage is a positive \<open>w\<close>
  carries the quotient of \<open>u\<close> by \<open>w\<close> as its ratio, the status that the thresholds 1
  and 1.1 give this ratio, and the amount \<open>w - u\<close> when it is below and 0 otherwise,
  whatever the other wages are.
\<close>

theorem zero_level_wage:
  assumes "POST s2n getDocs req_json = Success res" and "row \<in> set (table res)"
    and "userSalaryAnnual (chart res) = Fin u" and "0 < u"
  shows "length (table res) = 4
       \<and> (ToNumber s2n (annual_wage row) = Fin 0
            \<longrightarrow> ratio row = PInf \<and> JSON_number (ratio row) = JNull
              \<and> status row = exceeds \<and> toReachAnnual row = Fin 0)
       \<and> (ToNumber s2n (annual_wage row) = NZero
            \<longrightarrow> ratio row = NInf \<and> JSON_number (ratio row) = JNull
              \<and> status row = below \<and> toReachAnnual row = Fin (- u))
       \<and> (ToNumber s2n (annual_wage row) = Fin w \<and> 0 < w
            \<longrightarrow> ratio row = js_div (Fin u) (Fin w)
              \<and> status row = (if js_lt (ratio row) (Fin 1) then below
                              else if js_lt (ratio row) (Fin 1.1) then meets else exceeds)
              \<and> toReachAnnual row = (if status row = below then Fin (w - u) else Fin 0))"
proof -
  from assms(1,2) obtain l where row: "row = table_entry s2n (userSalaryAnnual (chart res)) l"
    by (rule POST_row)
  have len: "length (table res) = 4"
    using assms(1) by (elim POST_Success_elim) (simp add: levels_of_def)
  have zero: "ratio row = PInf \<and> JSON_number (ratio row) = JNull
      \<and> status row = exceeds \<and> toReachAnnual row = Fin 0"
    if "ToNumber s2n (annual_wage row) = Fin 0"
    using that assms(3,4) by (simp add: row table_entry_fields js_defs)
  have nzero: "ratio row = NInf \<and> JSON_number (ratio row) = JNull
      \<and> status row = below \<and> toReachAnnual row = Fin (- u)"
    if "ToNumber s2n (annual_wage row) = NZero"
    using that assms(3,4) by (simp add: row table_entry_fields js_defs)
  have pos: "ratio row = js_div (Fin u) (Fin w)
              \<and> status row = (if js_lt (ratio row) (Fin 1) then below
                              else if js_lt (ratio row) (Fin 1.1) then meets else exceeds)
              \<and> toReachAnnual row = (if status row = below then Fin (w - u) else Fin 0)"
    if "ToNumber s2n (annual_wage row) = Fin w" and "0 < w"
    using that assms(3,4) by (simp add: row table_entry_fields js_defs)
  from len zero nzero pos show ?thesis by blast
qed

text \<open>
  The theorem on the first two rows of example scenario 4, and on the first row of the
  README request against a record whose first wage is negative zero.
\<close>

theorem zero_level_wage_witness:
  "length (table_of (POST reads_no_string (only_doc scenario4_doc) (Inr scenario4_body))) = 4
   \<and> take 2 (map ratio
        (table_of (POST reads_no_string (only_doc scenario4_doc) (Inr scenario4_body))))
       = [PInf, Fin (5 / 8)]
   \<and> take 2 (map status
        (table_of (POST reads_no_string (only_doc scenario4_doc) (Inr scenario4_body))))
       = [exceeds, below]
   \<and> take 2 (map toReachAnnual
        (table_of (POST reads_no_string (only_doc scenario4_doc) (Inr scenario4_body))))
       = [Fin 0, Fin 30000]
   \<and> take 1 (map ratio
        (table_of (POST reads_no_string (only_doc negzero_doc) (Inr scenario1_body))))
       = [NInf]
   \<and> take 1 (map status
        (table_of (POST reads_no_string (only_doc negzero_doc) (Inr scenario1_body))))
       = [below]
   \<and> take 1 (map toReachAnnual
        (table_of (POST reads_no_string (only_doc negzero_doc) (Inr scenario1_body))))
       = [Fin (- 90000)]"
proof -
  let ?r = "POST reads_no_string (only_doc scenario4_doc) (Inr scenario4_body)"
  note rows = scenario4_table [of reads_no_string]
  then obtain res where res: "?r = Success res"
    by (cases ?r) simp_all
  from rows res obtain r1 r2 r3 r4 where tb: "table res = [r1, r2, r3, r4]"
    and w: "annual_wage r1 = JNum (Fin 0)" "annual_wage r2 = JNum (Fin 80000)"
    by simp
  have u: "userSalaryAnnual (chart res) = Fin 50000"
    using res by (elim POST_Success_elim) (auto simp: fixture_defs toAnnual_def)
  have a: "length (table res) = 4"
    using zero_level_wage [OF res _ u, of r1] tb by simp
  have b: "ratio r1 = PInf \<and> status r1 = exceeds \<and> toReachAnnual r1 = Fin 0"
    using zero_level_wage [OF res _ u, of r1] tb w by simp
  have c: "ratio r2 = Fin (5 / 8) \<and> status r2 = below \<and> toReachAnnual r2 = Fin 30000"
    using zero_level_wage [OF res _ u, of r2 80000] tb w by (simp add: js_defs)
  let ?n = "POST reads_no_string (only_doc negzero_doc) (Inr scenario1_body)"
  note nrows = negzero_table [of reads_no_string]
  then obtain nres where nres: "?n = Success nres"
    by (cases ?n) simp_all
  from nrows nres obtain n1 n2 n3 n4 where ntb: "table nres = [n1, n2, n3, n4]"
    and nw: "annual_wage n1 = JNum NZero"
    by simp
  have nu: "userSalaryAnnual (chart nres) = Fin 90000"
    using nres by (elim POST_Success_elim) (auto simp: fixture_defs toAnnual_def)
  have d: "ratio n1 = NInf \<and> status n1 = below \<and> toReachAnnual n1 = Fin (- 90000)"
    using zero_level_wage [OF nres _ nu, of n1] ntb nw by simp
  from a b c d show ?thesis
    using res tb nres ntb by simp
qed

section \<open>The README example\<close>

text \<open>
  Claim C7. For the wages 60000, 80000, 100000 and 120000 and an annual salary of 90000
  the rows carry the ratios 1.5, 1.125, 0.9 and 0.75, the statuses exceeds, exceeds,
  below and below, and the amounts to reach 0, 0, 10000 and 30000, from L1 to L4.
\<close>

theorem scenario1:
  "map level (table_of (POST s2n (only_doc scenario1_doc) (Inr scenario1_body)))
     = [''L1'', ''L2'', ''L3'', ''L4'']
   \<and> map ratio (table_of (POST s2n (only_doc scenario1_doc) (Inr scenario1_body)))
     = [Fin 1.5, Fin 1.125, Fin 0.9, Fin 0.75]
   \<and> map status (table_of (POST s2n (only_doc scenario1_doc) (Inr scenario1_body)))
     = [exceeds, exceeds, below, below]
   \<and> map toReachAnnual (table_of (POST s2n (only_doc scenario1_doc) (Inr scenario1_body)))
     = [Fin 0, Fin 0, Fin 10000, Fin 30000]"
  by (simp add: scenario1_table)

text \<open>The same rows, with a reading of strings fixed.\<close>

theorem scenario1_witness:
  "map ratio (table_of (POST reads_no_string (only_doc scenario1_doc) (Inr scenario1_body)))
     = [Fin 1.5, Fin 1.125, Fin 0.9, Fin 0.75]
   \<and> map status (table_of (POST reads_no_string (only_doc scenario1_doc) (Inr scenario1_body)))
     = [exceeds, exceeds, below, below]
   \<and> map toReachAnnual
         (table_of (POST reads_no_string (only_doc scenario1_doc) (Inr scenario1_body)))
     = [Fin 0, Fin 0, Fin 10000, Fin 30000]"
  using scenario1 [of reads_no_string] by simp

section \<open>The order of the rows\<close>

text \<open>
  Claim C8. The rows of a successful response are those of L1, L2, L3 and L4 in this
  order, each with the wage of its own level, whatever the wages are.
\<close>

theorem row_order:
  assumes "POST s2n getDocs req_json = Success res"
  shows "map level (table res) = [''L1'', ''L2'', ''L3'', ''L4'']
       \<and> map annual_wage (table res)
           = [l1 (wages res), l2 (wages res), l3 (wages res), l4 (wages res)]"
  using assms by (elim POST_Success_elim) (simp add: levels_of_def table_entry_fields)

text \<open>The theorem on a record whose wages descend from L1 to L4.\<close>

theorem row_order_witness:
  "map level (table_of (POST reads_no_string (only_doc descending_doc) (Inr scenario1_body)))
     = [''L1'', ''L2'', ''L3'', ''L4'']
   \<and> map annual_wage
       (table_of (POST reads_no_string (only_doc descending_doc) (Inr scenario1_body)))
     = [JNum (Fin 120000), JNum (Fin 100000), JNum (Fin 80000), JNum (Fin 60000)]"
proof -
  let ?r = "POST reads_no_string (only_doc descending_doc) (Inr scenario1_body)"
  have "ok ?r"
    by (simp add: eval_defs fixture_defs)
  then obtain res where res: "?r = Success res"
    using ok_Success by blast
  have w: "wages res = \<lparr>l1 = JNum (Fin 120000), l2 = JNum (Fin 100000),
      l3 = JNum (Fin 80000), l4 = JNum (Fin 60000)\<rparr>"
    using res by (elim POST_Success_elim) (auto simp: fixture_defs)
  show ?thesis
    using row_order [OF res] by (simp add: res w)
qed

section \<open>The mode of the salary\<close>

text \<open>
  Claim C10. In a successful response the salary is \<^verbatim>\<open>Number(body.salary_value)\<close>. When
  \<^verbatim>\<open>mode\<close> is absent or the empty string the mode is \<^verbatim>\<open>"annual"\<close> and the annual
  salary is the salary unchanged. Any other truthy mode that is not the string
  \<^verbatim>\<open>"annual"\<close> is kept and the salary is multiplied by 2080, as \<open>toAnnual\<close> does for
  every mode but \<^verbatim>\<open>"annual"\<close>; and a request that succeeds still succeeds with any
  other mode in its place, so no mode is refused.
\<close>

theorem mode_default:
  assumes "POST s2n getDocs (Inr b) = Success res"
  shows "input.salary_value (input res) = ToNumber s2n (body.salary_value b)
       \<and> (body.mode b = JUndefined \<or> body.mode b = JStr []
            \<longrightarrow> input.mode (input res) = JStr ''annual''
              \<and> salary_annual (input res) = input.salary_value (input res))
       \<and> (ToBoolean (body.mode b) \<and> body.mode b \<noteq> JStr ''annual''
            \<longrightarrow> input.mode (input res) = body.mode b
              \<and> salary_annual (input res) = js_mul (input.salary_value (input res)) (Fin 2080))
       \<and> (m \<noteq> JStr ''annual'' \<longrightarrow> toAnnual v m = js_mul v (Fin 2080))
       \<and> ok (POST s2n getDocs (Inr (b\<lparr>body.mode := m\<rparr>)))"
proof -
  from assms obtain data rest where
    keys: "ToBoolean (body.state b)" "ToBoolean (body.county b)" "ToBoolean (body.soc_code b)"
    and num: "ToNumber s2n (body.salary_value b) \<noteq> NaN"
      "ToNumber s2n (body.salary_value b) \<noteq> Fin 0"
      "ToNumber s2n (body.salary_value b) \<noteq> NZero"
    and docs: "getDocs (body.state b) (body.county b) (body.soc_code b) = Inr (data # rest)"
    and sv: "input.salary_value (input res) = ToNumber s2n (body.salary_value b)"
    and md: "input.mode (input res)
              = (if ToBoolean (body.mode b) then body.mode b else JStr ''annual'')"
    and an: "salary_annual (input res)
              = toAnnual (input.salary_value (input res)) (input.mode (input res))"
    by (rule POST_Inr_elim) blast
  have absent: "input.mode (input res) = JStr ''annual''
              \<and> salary_annual (input res) = input.salary_value (input res)"
    if "body.mode b = JUndefined \<or> body.mode b = JStr []"
    using that by (auto simp: an md toAnnual_def)
  have other: "input.mode (input res) = body.mode b
              \<and> salary_annual (input res) = js_mul (input.salary_value (input res)) (Fin 2080)"
    if "ToBoolean (body.mode b)" and "body.mode b \<noteq> JStr ''annual''"
    using that by (simp add: an md toAnnual_def)
  have conv: "toAnnual v m = js_mul v (Fin 2080)" if "m \<noteq> JStr ''annual''"
    using that by (simp add: toAnnual_def)
  have "ok (POST s2n getDocs (Inr (b\<lparr>body.mode := m\<rparr>)))"
    by (rule POST_Success_intro [where data = data and rest = rest])
      (simp_all add: keys num docs)
  with sv absent other conv show ?thesis by blast
qed

text \<open>The theorem on the README request without a mode and with the mode \<^verbatim>\<open>"weekly"\<close>.\<close>

theorem mode_default_witness:
  "map_option input.mode (input_of (POST reads_no_string (only_doc scenario1_doc)
       (Inr (scenario1_body\<lparr>body.mode := JUndefined\<rparr>)))) = Some (JStr ''annual'')
   \<and> map_option salary_annual (input_of (POST reads_no_string (only_doc scenario1_doc)
       (Inr (scenario1_body\<lparr>body.mode := JUndefined\<rparr>)))) = Some (Fin 90000)
   \<and> map_option salary_annual (input_of (POST reads_no_string (only_doc scenario1_doc)
       (Inr (scenario1_body\<lparr>body.mode := JStr ''weekly''\<rparr>)))) = Some (Fin 187200000)
   \<and> toAnnual (Fin 90000) (JStr ''weekly'') = Fin 187200000"
proof -
  let ?absent = "scenario1_body\<lparr>body.mode := JUndefined\<rparr>"
  let ?weekly = "scenario1_body\<lparr>body.mode := JStr ''weekly''\<rparr>"
  let ?q = "only_doc scenario1_doc"
  have "ok (POST reads_no_string ?q (Inr ?absent))"
    by (simp add: eval_defs fixture_defs)
  then obtain res1 where res1: "POST reads_no_string ?q (Inr ?absent) = Success res1"
    using ok_Success by blast
  have "ok (POST reads_no_string ?q (Inr ?weekly))"
    using mode_default [OF res1, of "JStr ''weekly''"] by simp
  then obtain res2 where res2: "POST reads_no_string ?q (Inr ?weekly) = Success res2"
    using ok_Success by blast
  have a: "input.mode (input res1) = JStr ''annual'' \<and> salary_annual (input res1) = Fin 90000"
    using mode_default [OF res1] by (simp add: scenario1_body_def)
  have b: "salary_annual (input res2) = Fin 187200000"
    using mode_default [OF res2] by (simp add: scenario1_body_def js_defs)
  have c: "toAnnual (Fin 90000) (JStr ''weekly'') = Fin 187200000"
    using mode_default [OF res1, of "JStr ''weekly''" "Fin 90000"] by (simp add: js_defs)
  from a b c show ?thesis
    by (simp add: res1 res2)
qed

end
